theory Spec2Isabelle
  imports Main
begin

section \<open>The values the hook works on\<close>

text \<open>
  The hook \<^verbatim>\<open>useForm\<close> of \<^verbatim>\<open>solidHookForm.ts\<close> keeps two Solid stores, \<^verbatim>\<open>form\<close>
  and \<^verbatim>\<open>formErrors\<close>. Both are plain objects whose properties hold strings, so a
  store is a finite map from property names to strings; a property that is absent reads
  as \<^verbatim>\<open>undefined\<close>, which is \<open>None\<close> here. The file holds two revisions of the
  hook; the definitions follow the later one (lines 67 to 118), which logs an unknown input
  name and an issue without a path with \<^verbatim>\<open>console.error\<close>.
\<close>

type_synonym js_record = "string \<rightharpoonup> string"

text \<open>
  A segment of an issue's path is a \<^verbatim>\<open>PropertyKey\<close>. A string segment is the string
  itself. A number segment is given by the string that JavaScript's \<^verbatim>\<open>ToString\<close> makes
  of the number (\<^verbatim>\<open>"0"\<close> for both zeros, \<^verbatim>\<open>"NaN"\<close>, \<^verbatim>\<open>"-1"\<close>, \<^verbatim>\<open>"1.5"\<close>,
  \<^verbatim>\<open>"1e+21"\<close>), which is also the property name the number stands for as a key. Symbol
  segments are left out.
\<close>

datatype property_key = Name string | Number string

record issue =
  path :: "property_key list"
  message :: string

text \<open>
  The result of \<^verbatim>\<open>schema.safeParse\<close>: \<^verbatim>\<open>success\<close> is true, or it is false and
  \<^verbatim>\<open>error.issues\<close> is the ordered list of issues. The parsed data of a success is never
  read by the hook and is left out.
\<close>

datatype safe_parse_result = Success | Failure "issue list"

text \<open>
  What the hook reads of a Zod object schema: the own enumerable keys of
  \<^verbatim>\<open>schema.shape\<close> in their order (\<^verbatim>\<open>Object.keys(schema.shape)\<close>) and the function
  \<^verbatim>\<open>safeParse\<close>. The validation rules themselves belong to the caller and to Zod, so
  \<open>safeParse\<close> is any function from a record of values to a result.
\<close>

record schema =
  shape :: "string list"
  safeParse :: "js_record \<Rightarrow> safe_parse_result"

text \<open>The two calls of \<^verbatim>\<open>console.error\<close>, each with its argument.\<close>

datatype diagnostic = Invalid_input_name string | No_path_found issue

text \<open>
  The state of one controller: the two stores and what has been written to the console.
\<close>

record controller =
  form :: js_record
  formErrors :: js_record
  console_error :: "diagnostic list"

text \<open>The part of a change event that \<^verbatim>\<open>handleChange\<close> reads: \<^verbatim>\<open>e.target.name\<close> and
  \<^verbatim>\<open>e.target.value\<close>.\<close>

record input_event =
  target_name :: string
  target_value :: string

section \<open>JavaScript operators used by the hook\<close>

text \<open>
  \<^verbatim>\<open>name in schema.shape\<close> is true for an own property of the shape and for a property
  the shape inherits. The shape is a plain object, so it inherits the properties of
  \<^verbatim>\<open>Object.prototype\<close>.
\<close>

definition object_prototype :: "string list" where
  "object_prototype =
     [''constructor'', ''__defineGetter__'', ''__defineSetter__'', ''hasOwnProperty'',
      ''__lookupGetter__'', ''__lookupSetter__'', ''isPrototypeOf'',
      ''propertyIsEnumerable'', ''toString'', ''valueOf'', ''__proto__'',
      ''toLocaleString'']"

definition js_in :: "string \<Rightarrow> string list \<Rightarrow> bool" where
  "js_in name own_keys \<longleftrightarrow> name \<in> set own_keys \<or> name \<in> set object_prototype"

text \<open>
  \<^verbatim>\<open>data[key] === undefined\<close> for a plain object \<^verbatim>\<open>data\<close> whose own properties hold
  strings: the read goes through the prototype, so it is \<^verbatim>\<open>undefined\<close> only for a name
  that is neither an own property nor one of \<^verbatim>\<open>Object.prototype\<close>.
\<close>

definition reads_undefined :: "js_record \<Rightarrow> string \<Rightarrow> bool" where
  "reads_undefined data key \<longleftrightarrow> data key = None \<and> key \<notin> set object_prototype"

text \<open>
  \<^verbatim>\<open>issue.path[0]\<close>: the first segment, \<^verbatim>\<open>undefined\<close> (\<open>None\<close>) when the path is
  empty.
\<close>

definition path0 :: "issue \<Rightarrow> property_key option" where
  "path0 i = (case path i of [] \<Rightarrow> None | seg # _ \<Rightarrow> Some seg)"

text \<open>
  The truth value of \<^verbatim>\<open>issue.path[0]\<close> in \<^verbatim>\<open>if(issue.path[0])\<close>: \<^verbatim>\<open>undefined\<close>, the
  empty string, the number zero and \<^verbatim>\<open>NaN\<close> are falsy.
\<close>

fun truthy :: "property_key option \<Rightarrow> bool" where
  "truthy None = False"
| "truthy (Some (Name n)) = (n \<noteq> [])"
| "truthy (Some (Number r)) = (r \<noteq> ''0'' \<and> r \<noteq> ''NaN'')"

text \<open>
  The property name a segment stands for when it is used as a key of a store.
\<close>

fun to_property_name :: "property_key \<Rightarrow> string" where
  "to_property_name (Name n) = n"
| "to_property_name (Number r) = r"

text \<open>
  The truth value of \<^verbatim>\<open>formErrors.field\<close>, as the forms of the README test it
  (\<^verbatim>\<open>formErrors.email && ...\<close>): a field shows an error when its entry is a string
  that is not empty.
\<close>

definition has_error :: "js_record \<Rightarrow> string \<Rightarrow> bool" where
  "has_error errors k = (case errors k of None \<Rightarrow> False | Some m \<Rightarrow> m \<noteq> [])"

section \<open>Solid stores\<close>

text \<open>
  \<^verbatim>\<open>setStore(key, value)\<close> with a string value ends in the assignment
  \<^verbatim>\<open>state[key] = value\<close> on the plain object behind the store. The assignment sets the
  property, with one exception: under \<^verbatim>\<open>__proto__\<close>, when the object has no own property
  of that name, it reaches the setter of \<^verbatim>\<open>Object.prototype\<close>, which ignores a string
  and stores nothing.
\<close>

definition setStore :: "js_record \<Rightarrow> string \<Rightarrow> string \<Rightarrow> js_record" where
  "setStore store key v =
     (if key = ''__proto__'' \<and> store key = None then store else store(key \<mapsto> v))"

text \<open>
  \<^verbatim>\<open>setStore(reconcile(data))\<close> on a store of strings runs two loops. The first goes
  through \<^verbatim>\<open>Object.keys(data)\<close> and sets each of these properties in the store to its
  value in \<^verbatim>\<open>data\<close>, by the same assignment as above. The second goes through the keys
  of the store and deletes a key when \<^verbatim>\<open>data[key] === undefined\<close>. A key of the store
  that \<^verbatim>\<open>data\<close> lacks but \<^verbatim>\<open>Object.prototype\<close> has is therefore not deleted.
\<close>

definition reconcile :: "js_record \<Rightarrow> js_record \<Rightarrow> js_record" where
  "reconcile data store =
     (\<lambda>k. case data k of
            Some v \<Rightarrow> setStore store k v k
          | None \<Rightarrow> if reads_undefined data k then None else store k)"

section \<open>useForm\<close>

definition formKeys :: "schema \<Rightarrow> string list" where
  "formKeys s = shape s"

text \<open>\<^verbatim>\<open>Object.fromEntries(formKeys.map((key) => [key, ""]))\<close>\<close>

definition initialFormState :: "schema \<Rightarrow> js_record" where
  "initialFormState s = map_of (map (\<lambda>key. (key, [])) (formKeys s))"

text \<open>
  The controller as \<^verbatim>\<open>useForm\<close> creates it: \<^verbatim>\<open>createStore({...initialFormState})\<close>
  and \<^verbatim>\<open>createStore({})\<close>.
\<close>

definition useForm :: "schema \<Rightarrow> controller" where
  "useForm s =
     \<lparr>form = initialFormState s, formErrors = Map.empty, console_error = []\<rparr>"

definition handleChange :: "schema \<Rightarrow> controller \<Rightarrow> input_event \<Rightarrow> controller" where
  "handleChange s st e =
     (if js_in (target_name e) (shape s)
      then st\<lparr>form := setStore (form st) (target_name e) (target_value e)\<rparr>
      else st\<lparr>console_error := console_error st @ [Invalid_input_name (target_name e)]\<rparr>)"

text \<open>The body of the loop over \<^verbatim>\<open>result.error.issues\<close>.\<close>

definition validate_issue :: "controller \<Rightarrow> issue \<Rightarrow> controller" where
  "validate_issue st i =
     (if truthy (path0 i)
      then (case path0 i of
              Some key \<Rightarrow>
                st\<lparr>formErrors := setStore (formErrors st) (to_property_name key) (message i)\<rparr>
            | None \<Rightarrow> st)
      else st\<lparr>console_error := console_error st @ [No_path_found i]\<rparr>)"

text \<open>The loop itself, in the order of the issues.\<close>

primrec validate_issues :: "controller \<Rightarrow> issue list \<Rightarrow> controller" where
  "validate_issues st [] = st"
| "validate_issues st (i # issues) = validate_issues (validate_issue st i) issues"

text \<open>
  \<^verbatim>\<open>validate\<close> returns its boolean together with the state it leaves.
\<close>

definition validate :: "schema \<Rightarrow> controller \<Rightarrow> bool \<times> controller" where
  "validate s st =
     (let result = safeParse s (form st);
          st1 = st\<lparr>formErrors := reconcile (initialFormState s) (formErrors st)\<rparr>
      in case result of
           Success \<Rightarrow> (True, st1)
         | Failure issues \<Rightarrow>
             (let st2 = st1\<lparr>formErrors := reconcile (initialFormState s) (formErrors st1)\<rparr>
              in (False, validate_issues st2 issues)))"

section \<open>Sequences of calls\<close>

text \<open>
  What a form does with a controller between its construction and any later moment: a
  sequence of change events and calls of \<^verbatim>\<open>validate\<close>.
\<close>

datatype action = Change input_event | Validate

fun step :: "schema \<Rightarrow> controller \<Rightarrow> action \<Rightarrow> controller" where
  "step s st (Change e) = handleChange s st e"
| "step s st Validate = snd (validate s st)"

definition run :: "schema \<Rightarrow> action list \<Rightarrow> controller" where
  "run s actions = foldl (step s) (useForm s) actions"

text \<open>
  The property name under which the loop of \<^verbatim>\<open>validate\<close> assigns the message of an
  issue, if the issue passes the test of the loop.
\<close>

definition attached_field :: "issue \<Rightarrow> string option" where
  "attached_field i =
     (if truthy (path0 i) then map_option to_property_name (path0 i) else None)"

section \<open>Schemas of example forms\<close>

text \<open>
  The registration form of the README: an email address, a password of at least eight
  characters and its confirmation, with a cross-field rule that reports a mismatch under
  \<^verbatim>\<open>["confirmPassword"]\<close>. The format of an email address is reduced to the presence
  of an at sign.
\<close>

definition field_value :: "js_record \<Rightarrow> string \<Rightarrow> string" where
  "field_value values k = (case values k of None \<Rightarrow> [] | Some v \<Rightarrow> v)"

definition register_issues :: "js_record \<Rightarrow> issue list" where
  "register_issues values =
     (if CHR ''@'' \<in> set (field_value values ''email'') then []
      else [\<lparr>path = [Name ''email''], message = ''Invalid email address''\<rparr>]) @
     (if 8 \<le> length (field_value values ''password'') then []
      else [\<lparr>path = [Name ''password''],
             message = ''Password must be at least 8 characters''\<rparr>]) @
     (if field_value values ''password'' = field_value values ''confirmPassword'' then []
      else [\<lparr>path = [Name ''confirmPassword''],
             message = ''The passwords do not match''\<rparr>])"

definition registerSchema :: schema where
  "registerSchema =
     \<lparr>shape = [''email'', ''password'', ''confirmPassword''],
      safeParse = (\<lambda>values. if register_issues values = [] then Success
                             else Failure (register_issues values))\<rparr>"

definition change :: "string \<Rightarrow> string \<Rightarrow> input_event" where
  "change n v = \<lparr>target_name = n, target_value = v\<rparr>"

text \<open>
  A schema whose cross-field rule reports the mismatch under a name that is not a field of
  the schema (\<^verbatim>\<open>passwordConfirm\<close> for \<^verbatim>\<open>passwordRepeat\<close>).
\<close>

definition strayPathSchema :: schema where
  "strayPathSchema =
     \<lparr>shape = [''password'', ''passwordRepeat''],
      safeParse = (\<lambda>values.
        if field_value values ''password'' = field_value values ''passwordRepeat'' then Success
        else Failure [\<lparr>path = [Name ''passwordConfirm''],
                       message = ''Passwords do not match''\<rparr>])\<rparr>"

text \<open>
  A schema with two rules: a password that is missing is reported under
  \<^verbatim>\<open>["toString"]\<close>, which is no field of the schema; otherwise a confirmation that
  differs is reported under \<^verbatim>\<open>["confirmPassword"]\<close>.
\<close>

definition inheritedPathSchema :: schema where
  "inheritedPathSchema =
     \<lparr>shape = [''password'', ''confirmPassword''],
      safeParse = (\<lambda>values.
        if field_value values ''password'' = []
        then Failure [\<lparr>path = [Name ''toString''], message = ''Password is required''\<rparr>]
        else if field_value values ''password'' = field_value values ''confirmPassword''
        then Success
        else Failure [\<lparr>path = [Name ''confirmPassword''],
                       message = ''The passwords do not match''\<rparr>])\<rparr>"

text \<open>
  A schema whose cross-field rule gives its issue no path, after the issue of the field
  \<^verbatim>\<open>login\<close>.
\<close>

definition formLevelSchema :: schema where
  "formLevelSchema =
     \<lparr>shape = [''login'', ''password''],
      safeParse = (\<lambda>values.
        if field_value values ''login'' = field_value values ''password''
        then Failure [\<lparr>path = [Name ''login''], message = ''Too short''\<rparr>,
                      \<lparr>path = [], message = ''Login and password must differ''\<rparr>]
        else Success)\<rparr>"

text \<open>A schema with one field, whose name is the empty string and which must be filled in.\<close>

definition blankNameSchema :: schema where
  "blankNameSchema =
     \<lparr>shape = [[]],
      safeParse = (\<lambda>values.
        if field_value values [] = [] then Failure [\<lparr>path = [Name []], message = ''Required''\<rparr>]
        else Success)\<rparr>"

section \<open>Basic facts\<close>

lemma map_of_constant:
  "map_of (map (\<lambda>key. (key, c)) ks) k = (if k \<in> set ks then Some c else None)"
  by (induction ks) auto

lemma initialFormState_apply:
  "initialFormState s k = (if k \<in> set (shape s) then Some [] else None)"
  by (simp add: initialFormState_def formKeys_def map_of_constant)

lemma dom_initialFormState: "dom (initialFormState s) = set (shape s)"
  by (auto simp: initialFormState_apply dom_def)

lemma setStore_apply:
  "setStore store key v k =
     (if key = ''__proto__'' \<and> store key = None then store k
      else if k = key then Some v else store k)"
  by (auto simp: setStore_def)

lemma dom_setStore: "dom store \<subseteq> dom (setStore store key v)"
  by (auto simp: setStore_def)

lemma reconcile_apply:
  "reconcile data store k =
     (case data k of
        Some v \<Rightarrow> if k = ''__proto__'' \<and> store k = None then None else Some v
      | None \<Rightarrow> if k \<in> set object_prototype then store k else None)"
  by (auto simp: reconcile_def reads_undefined_def setStore_def split: option.splits)

lemma reconcile_idem: "reconcile data (reconcile data store) = reconcile data store"
  by (rule ext) (auto simp: reconcile_apply split: option.splits)

lemma form_validate_issue: "form (validate_issue st i) = form st"
  by (simp add: validate_issue_def split: option.splits)

lemma form_validate_issues: "form (validate_issues st issues) = form st"
  by (induction issues arbitrary: st) (simp_all add: form_validate_issue)

lemma validate_issues_snoc:
  "validate_issues st (issues @ [i]) = validate_issue (validate_issues st issues) i"
  by (induction issues arbitrary: st) simp_all

lemma truthy_Some: "truthy p \<Longrightarrow> \<exists>key. p = Some key"
  by (cases p) simp_all

lemma path0_empty: "path i = [] \<Longrightarrow> path0 i = None"
  by (simp add: path0_def)

lemma formErrors_validate_issue:
  "formErrors (validate_issue st i) =
     (case attached_field i of
        None \<Rightarrow> formErrors st
      | Some k \<Rightarrow> setStore (formErrors st) k (message i))"
  by (auto simp: validate_issue_def attached_field_def dest: truthy_Some)

lemma console_validate_issue:
  "console_error (validate_issue st i) =
     console_error st @ (if truthy (path0 i) then [] else [No_path_found i])"
  by (auto simp: validate_issue_def dest: truthy_Some)

lemma console_validate_issues:
  "console_error (validate_issues st issues) =
     console_error st @ map No_path_found (filter (\<lambda>i. \<not> truthy (path0 i)) issues)"
  by (induction issues rule: rev_induct)
     (simp_all add: validate_issues_snoc console_validate_issue)

lemma validate_Success:
  "safeParse s (form st) = Success \<Longrightarrow>
     validate s st =
       (True, st\<lparr>formErrors := reconcile (initialFormState s) (formErrors st)\<rparr>)"
  by (simp add: validate_def)

lemma validate_Failure:
  "safeParse s (form st) = Failure issues \<Longrightarrow>
     validate s st =
       (False,
        validate_issues (st\<lparr>formErrors := reconcile (initialFormState s) (formErrors st)\<rparr>)
          issues)"
  by (simp add: validate_def reconcile_idem)

lemma form_validate: "form (snd (validate s st)) = form st"
  by (cases "safeParse s (form st)")
     (simp_all add: validate_Success validate_Failure form_validate_issues)

section \<open>Evaluating the hook\<close>

text \<open>The definitions of the hook, for evaluating it on a given form.\<close>

lemmas hook_defs =
  handleChange_def validate_def useForm_def js_in_def object_prototype_def setStore_def
  reconcile_def reads_undefined_def initialFormState_def formKeys_def validate_issue_def
  path0_def Let_def

section \<open>Construction\<close>

text \<open>
  C3. Right after \<^verbatim>\<open>useForm\<close> the store \<^verbatim>\<open>form\<close> has exactly the keys of the schema,
  each with the empty string, and the store \<^verbatim>\<open>formErrors\<close> has no key.
\<close>

theorem useForm_initial:
  "dom (form (useForm s)) = set (shape s) \<and>
   (\<forall>k \<in> set (shape s). form (useForm s) k = Some []) \<and>
   formErrors (useForm s) = Map.empty"
  by (simp add: useForm_def dom_initialFormState initialFormState_apply)

theorem useForm_initial_witness:
  "dom (form (useForm registerSchema)) = {''email'', ''password'', ''confirmPassword''} \<and>
   form (useForm registerSchema) ''password'' = Some [] \<and>
   formErrors (useForm registerSchema) = Map.empty"
proof -
  have keys: "set (shape registerSchema) = {''email'', ''password'', ''confirmPassword''}"
    by (simp add: registerSchema_def)
  have "''password'' \<in> set (shape registerSchema)"
    by (simp add: registerSchema_def)
  with useForm_initial [of registerSchema] keys show ?thesis
    by simp
qed

section \<open>Change events\<close>

text \<open>
  The store \<^verbatim>\<open>form\<close> has an entry for every key of the schema after \<^verbatim>\<open>useForm\<close>, and
  neither a change event nor a call of \<^verbatim>\<open>validate\<close> removes one.
\<close>

lemma run_Nil: "run s [] = useForm s"
  by (simp add: run_def)

lemma run_snoc: "run s (actions @ [a]) = step s (run s actions) a"
  by (simp add: run_def)

lemma form_keys_step:
  assumes "set (shape s) \<subseteq> dom (form st)"
  shows "set (shape s) \<subseteq> dom (form (step s st a))"
proof (cases a)
  case (Change e)
  have "dom (form st) \<subseteq> dom (form (handleChange s st e))"
    by (simp add: handleChange_def dom_setStore)
  with assms Change show ?thesis
    by simp
next
  case Validate
  with assms show ?thesis
    by (simp add: form_validate)
qed

lemma form_keys_run: "set (shape s) \<subseteq> dom (form (run s actions))"
  by (induction actions rule: rev_induct)
     (simp_all add: run_Nil run_snoc form_keys_step useForm_def dom_initialFormState)

text \<open>
  C4. In a controller whose \<^verbatim>\<open>form\<close> has its entry for every key of the schema, as it
  has after construction and after every change event and call of \<^verbatim>\<open>validate\<close>, a
  change event whose name is a key of the schema writes its value into \<^verbatim>\<open>form\<close> under that
  key and leaves every other key of \<^verbatim>\<open>form\<close> as it was.
\<close>

theorem handleChange_schema_field:
  assumes "target_name e \<in> set (shape s)" and "set (shape s) \<subseteq> dom (form st)"
  shows "form (handleChange s st e) (target_name e) = Some (target_value e) \<and>
         (\<forall>k. k \<noteq> target_name e \<longrightarrow> form (handleChange s st e) k = form st k)"
proof -
  from assms have "form st (target_name e) \<noteq> None"
    by auto
  with assms(1) show ?thesis
    by (auto simp: handleChange_def js_in_def setStore_def)
qed

theorem handleChange_schema_field_witness:
  "form (handleChange registerSchema (useForm registerSchema) (change ''email'' ''a@b.c''))
     ''email'' = Some ''a@b.c'' \<and>
   form (handleChange registerSchema (useForm registerSchema) (change ''email'' ''a@b.c''))
     ''password'' = Some []"
proof -
  have name: "target_name (change ''email'' ''a@b.c'') = ''email''"
    and val: "target_value (change ''email'' ''a@b.c'') = ''a@b.c''"
    by (simp_all add: change_def)
  have field: "target_name (change ''email'' ''a@b.c'') \<in> set (shape registerSchema)"
    by (simp add: change_def registerSchema_def)
  have entries: "set (shape registerSchema) \<subseteq> dom (form (useForm registerSchema))"
    by (simp add: useForm_def dom_initialFormState)
  have before: "form (useForm registerSchema) ''password'' = Some []"
    by (simp add: useForm_def initialFormState_apply registerSchema_def)
  from handleChange_schema_field [OF field entries] name val before
  show ?thesis by simp
qed

section \<open>The values during validation\<close>

text \<open>
  C10. \<^verbatim>\<open>validate\<close> never changes \<^verbatim>\<open>form\<close>: the values after the call are the values
  before it, whether the call returns true or false.
\<close>

theorem validate_keeps_form: "form (snd (validate s st)) = form st"
  by (cases "safeParse s (form st)")
     (simp_all add: validate_Success validate_Failure form_validate_issues)

section \<open>Change events with a name that is no field\<close>

text \<open>
  A name that is neither a key of the schema nor a property that the shape inherits is
  ignored: \<^verbatim>\<open>form\<close> stays as it is and the name is written to the console.
\<close>

lemma handleChange_unknown_name:
  assumes "target_name e \<notin> set (shape s)" and "target_name e \<notin> set object_prototype"
  shows "form (handleChange s st e) = form st \<and>
         console_error (handleChange s st e) =
           console_error st @ [Invalid_input_name (target_name e)]"
  using assms by (simp add: handleChange_def js_in_def)

text \<open>
  C5. A change event whose name is not a key of the schema should leave \<^verbatim>\<open>form\<close>
  unchanged and be logged. The test \<^verbatim>\<open>name in schema.shape\<close> also accepts the names
  the shape inherits from \<^verbatim>\<open>Object.prototype\<close>: for the registration form the name
  \<^verbatim>\<open>toString\<close> is no key of the schema, yet the event adds the property
  \<^verbatim>\<open>toString\<close> to \<^verbatim>\<open>form\<close> and nothing is logged.
\<close>

theorem handleChange_inherited_name:
  "''toString'' \<notin> set (shape registerSchema) \<and>
   form (useForm registerSchema) ''toString'' = None \<and>
   form (handleChange registerSchema (useForm registerSchema) (change ''toString'' ''x''))
     ''toString'' = Some ''x'' \<and>
   console_error (handleChange registerSchema (useForm registerSchema) (change ''toString'' ''x''))
     = []"
  by (simp add: hook_defs registerSchema_def register_issues_def field_value_def change_def)

section \<open>Issues without a path\<close>

lemma attached_field_path: "attached_field i = Some k \<Longrightarrow> path i \<noteq> []"
  by (auto simp: attached_field_def path0_def split: if_splits)

lemma attached_field_empty: "path i = [] \<Longrightarrow> attached_field i = None"
  by (simp add: attached_field_def path0_empty)

lemma formErrors_validate_issues_with_path:
  "formErrors st' = formErrors st \<Longrightarrow>
     formErrors (validate_issues st' (filter (\<lambda>i. path i \<noteq> []) issues)) =
     formErrors (validate_issues st issues)"
proof (induction issues arbitrary: st st')
  case Nil
  then show ?case by simp
next
  case (Cons i issues)
  show ?case
  proof (cases "path i = []")
    case True
    with Cons.prems have "formErrors st' = formErrors (validate_issue st i)"
      by (simp add: formErrors_validate_issue attached_field_empty)
    then have "formErrors (validate_issues st' (filter (\<lambda>i. path i \<noteq> []) issues)) =
               formErrors (validate_issues (validate_issue st i) issues)"
      by (rule Cons.IH)
    with True show ?thesis by simp
  next
    case False
    have "formErrors (validate_issue st' i) = formErrors (validate_issue st i)"
      by (simp only: formErrors_validate_issue Cons.prems)
    then have "formErrors (validate_issues (validate_issue st' i)
                 (filter (\<lambda>i. path i \<noteq> []) issues)) =
               formErrors (validate_issues (validate_issue st i) issues)"
      by (rule Cons.IH)
    with False show ?thesis by simp
  qed
qed

text \<open>
  C6. In a call of \<^verbatim>\<open>validate\<close> that fails, an issue whose path is empty is dropped:
  \<^verbatim>\<open>formErrors\<close> is what the issues with a path alone produce from the store as the
  reset leaves it, and every issue with an empty path is written to the console.
\<close>

theorem validate_drops_issue_without_path:
  assumes "safeParse s (form st) = Failure issues"
  shows "formErrors (snd (validate s st)) =
           formErrors (validate_issues
             (st\<lparr>formErrors := reconcile (initialFormState s) (formErrors st)\<rparr>)
             (filter (\<lambda>i. path i \<noteq> []) issues)) \<and>
         (\<forall>i \<in> set issues. path i = [] \<longrightarrow>
            No_path_found i \<in> set (console_error (snd (validate s st))))"
proof
  show "formErrors (snd (validate s st)) =
          formErrors (validate_issues
            (st\<lparr>formErrors := reconcile (initialFormState s) (formErrors st)\<rparr>)
            (filter (\<lambda>i. path i \<noteq> []) issues))"
    using assms by (simp add: validate_Failure formErrors_validate_issues_with_path [OF refl])
next
  show "\<forall>i \<in> set issues. path i = [] \<longrightarrow>
          No_path_found i \<in> set (console_error (snd (validate s st)))"
  proof (intro ballI impI)
    fix i
    assume "i \<in> set issues" and "path i = []"
    then have "i \<in> set (filter (\<lambda>i. \<not> truthy (path0 i)) issues)"
      by (simp add: path0_empty)
    then show "No_path_found i \<in> set (console_error (snd (validate s st)))"
      using assms by (simp add: validate_Failure console_validate_issues)
  qed
qed

text \<open>
  A form whose validation reports one issue of the field \<^verbatim>\<open>login\<close> and one issue
  without a path.
\<close>

theorem validate_drops_issue_without_path_witness:
  "formErrors (snd (validate formLevelSchema (useForm formLevelSchema))) ''login'' =
     Some ''Too short'' \<and>
   formErrors (snd (validate formLevelSchema (useForm formLevelSchema))) ''password'' =
     Some [] \<and>
   No_path_found \<lparr>path = [], message = ''Login and password must differ''\<rparr>
     \<in> set (console_error (snd (validate formLevelSchema (useForm formLevelSchema))))"
proof -
  let ?issues = "[\<lparr>path = [Name ''login''], message = ''Too short''\<rparr>,
                  \<lparr>path = [], message = ''Login and password must differ''\<rparr>]"
  let ?reset = "useForm formLevelSchema
    \<lparr>formErrors := reconcile (initialFormState formLevelSchema)
                     (formErrors (useForm formLevelSchema))\<rparr>"
  have failure: "safeParse formLevelSchema (form (useForm formLevelSchema)) = Failure ?issues"
    by (simp add: hook_defs formLevelSchema_def field_value_def)
  have login: "formErrors (validate_issues ?reset (filter (\<lambda>i. path i \<noteq> []) ?issues))
                 ''login'' = Some ''Too short''"
    by (simp add: hook_defs formLevelSchema_def)
  have password: "formErrors (validate_issues ?reset (filter (\<lambda>i. path i \<noteq> []) ?issues))
                 ''password'' = Some []"
    by (simp add: hook_defs formLevelSchema_def)
  from validate_drops_issue_without_path [OF failure] login password show ?thesis
    by simp
qed

section \<open>Issues of a field\<close>

lemma setStore_other:
  "k \<noteq> ''__proto__'' \<Longrightarrow> setStore store key v k = (if k = key then Some v else store k)"
  by (auto simp: setStore_def)

lemma formErrors_validate_issues:
  assumes "k \<noteq> ''__proto__''"
  shows "formErrors (validate_issues st issues) k =
     (if filter (\<lambda>i. attached_field i = Some k) issues = [] then formErrors st k
      else Some (message (last (filter (\<lambda>i. attached_field i = Some k) issues))))"
proof (induction issues rule: rev_induct)
  case Nil
  show ?case by simp
next
  case (snoc i issues)
  show ?case
  proof (cases "attached_field i")
    case None
    with snoc show ?thesis
      by (simp add: validate_issues_snoc formErrors_validate_issue)
  next
    case (Some k')
    with snoc assms show ?thesis
      by (simp add: validate_issues_snoc formErrors_validate_issue setStore_other)
  qed
qed

text \<open>
  An issue whose first segment passes the test \<^verbatim>\<open>if(issue.path[0])\<close> sets the error of
  its field, and of several issues of one field the last one in the list stays. (The name
  \<^verbatim>\<open>__proto__\<close> is set apart: the assignment under it stores nothing.)
\<close>

lemma validate_last_issue_wins:
  assumes "safeParse s (form st) = Failure issues"
    and "i \<in> set issues" and "attached_field i = Some k" and "k \<noteq> ''__proto__''"
  shows "\<not> fst (validate s st) \<and>
         formErrors (snd (validate s st)) k =
           Some (message (last (filter (\<lambda>j. attached_field j = Some k) issues)))"
proof -
  from assms(2,3) have "filter (\<lambda>j. attached_field j = Some k) issues \<noteq> []"
    by (auto simp: filter_empty_conv)
  with assms(1,4) show ?thesis
    by (simp add: validate_Failure formErrors_validate_issues)
qed

text \<open>
  C2. After a failed validation every issue with a path that is not empty should have its
  message under its first segment. The test \<^verbatim>\<open>if(issue.path[0])\<close> is also false for a
  first segment that is the empty string (or the number zero): the schema with the one
  field \<^verbatim>\<open>""\<close> reports the issue \<^verbatim>\<open>{path: [""], message: "Required"}\<close>, and
  \<^verbatim>\<open>validate\<close> returns false, leaves \<^verbatim>\<open>formErrors[""]\<close> empty and logs the issue as
  one without a path.
\<close>

theorem validate_blank_name_dropped:
  "safeParse blankNameSchema (form (useForm blankNameSchema)) =
     Failure [\<lparr>path = [Name []], message = ''Required''\<rparr>] \<and>
   \<not> fst (validate blankNameSchema (useForm blankNameSchema)) \<and>
   formErrors (snd (validate blankNameSchema (useForm blankNameSchema))) [] = Some [] \<and>
   console_error (snd (validate blankNameSchema (useForm blankNameSchema))) =
     [No_path_found \<lparr>path = [Name []], message = ''Required''\<rparr>]"
  by (simp add: hook_defs blankNameSchema_def field_value_def)

section \<open>Errors under names that are no fields\<close>

text \<open>
  The loop of \<^verbatim>\<open>validate\<close> assigns a message under the first segment of its issue
  whether or not that segment is a field of the schema; \<^verbatim>\<open>handleChange\<close> tests its name
  against the schema first, and the type \<^verbatim>\<open>FormErrors\<close> and the README describe the keys
  of \<^verbatim>\<open>formErrors\<close> as the fields of the schema. Such a key stays until a reset deletes
  it, and the reset does not delete a key that is named like a property of
  \<^verbatim>\<open>Object.prototype\<close>. What the reset does clear, on a call that returns true, is
  every field of the schema and every key with another name.
\<close>

lemma validate_success_clears_fields:
  assumes "safeParse s (form st) = Success"
  shows "fst (validate s st) \<and>
         (\<forall>k. k \<in> set (shape s) \<or> k \<notin> set object_prototype \<longrightarrow>
              \<not> has_error (formErrors (snd (validate s st))) k)"
  using assms
  by (auto simp: validate_Success reconcile_apply initialFormState_apply has_error_def
           split: option.splits if_splits)

text \<open>
  C1. A call of \<^verbatim>\<open>validate\<close> on values that satisfy the schema should return true and
  leave no error of an earlier pass. With the schema whose first rule reports under
  \<^verbatim>\<open>["toString"]\<close>: the form is validated empty, then the password and its confirmation
  are typed in; the values now satisfy the schema and \<^verbatim>\<open>validate\<close> returns true, but
  \<^verbatim>\<open>formErrors.toString\<close> still holds the message of the first pass.
\<close>

theorem validate_success_keeps_stale_error:
  "safeParse inheritedPathSchema
     (form (run inheritedPathSchema
        [Validate, Change (change ''password'' ''secret''),
         Change (change ''confirmPassword'' ''secret'')])) = Success \<and>
   fst (validate inheritedPathSchema
     (run inheritedPathSchema
        [Validate, Change (change ''password'' ''secret''),
         Change (change ''confirmPassword'' ''secret'')])) \<and>
   formErrors (snd (validate inheritedPathSchema
     (run inheritedPathSchema
        [Validate, Change (change ''password'' ''secret''),
         Change (change ''confirmPassword'' ''secret'')]))) ''toString'' =
     Some ''Password is required'' \<and>
   has_error (formErrors (snd (validate inheritedPathSchema
     (run inheritedPathSchema
        [Validate, Change (change ''password'' ''secret''),
         Change (change ''confirmPassword'' ''secret'')])))) ''toString''"
  by (simp add: hook_defs inheritedPathSchema_def field_value_def change_def run_def
        has_error_def)


text \<open>
  C8. In every state the controller reaches, the keys of \<^verbatim>\<open>formErrors\<close> should be keys of
  the schema, and a field that no issue of the most recent failed validation names should
  have no error. First, the schema whose rule reports under \<^verbatim>\<open>["passwordConfirm"]\<close>:
  after a password is typed in and the form is validated, \<^verbatim>\<open>formErrors\<close> has the key
  \<^verbatim>\<open>passwordConfirm\<close>, which is no key of the schema. Second, the schema whose first rule
  reports under \<^verbatim>\<open>["toString"]\<close>: after the form is validated empty, the password is
  typed in and the form is validated again, the only issue of the last pass is the one
  under \<^verbatim>\<open>["confirmPassword"]\<close>, and \<^verbatim>\<open>toString\<close> has an error.
\<close>

theorem formErrors_stray_key_reachable:
  "''passwordConfirm'' \<notin> set (shape strayPathSchema) \<and>
   formErrors (run strayPathSchema [Change (change ''password'' ''secret''), Validate])
     ''passwordConfirm'' = Some ''Passwords do not match'' \<and>
   safeParse inheritedPathSchema
     (form (run inheritedPathSchema [Validate, Change (change ''password'' ''secret'')])) =
     Failure [\<lparr>path = [Name ''confirmPassword''],
               message = ''The passwords do not match''\<rparr>] \<and>
   has_error
     (formErrors (run inheritedPathSchema
        [Validate, Change (change ''password'' ''secret''), Validate]))
     ''toString''"
  by (simp add: hook_defs strayPathSchema_def inheritedPathSchema_def field_value_def
        change_def run_def has_error_def)

text \<open>
  C9. After any call of \<^verbatim>\<open>validate\<close> the keys of \<^verbatim>\<open>formErrors\<close> should be exactly the
  keys of the schema. With the schema whose rule reports under \<^verbatim>\<open>["passwordConfirm"]\<close>,
  a call of \<^verbatim>\<open>validate\<close> on a form with a password and no repetition leaves the key
  \<^verbatim>\<open>passwordConfirm\<close> in \<^verbatim>\<open>formErrors\<close>, beside the two keys of the schema with the
  empty string.
\<close>

theorem validate_stray_key:
  "shape strayPathSchema = [''password'', ''passwordRepeat''] \<and>
   formErrors (snd (validate strayPathSchema
     (handleChange strayPathSchema (useForm strayPathSchema) (change ''password'' ''secret''))))
     ''passwordConfirm'' = Some ''Passwords do not match'' \<and>
   formErrors (snd (validate strayPathSchema
     (handleChange strayPathSchema (useForm strayPathSchema) (change ''password'' ''secret''))))
     ''password'' = Some [] \<and>
   formErrors (snd (validate strayPathSchema
     (handleChange strayPathSchema (useForm strayPathSchema) (change ''password'' ''secret''))))
     ''passwordRepeat'' = Some []"
  by (simp add: hook_defs strayPathSchema_def field_value_def change_def)

end
